theory Spec2Isabelle
  imports Main "HOL-Library.Word" "HOL-Library.Sublist"
begin

section \<open>The voice-agent page (hotel-agent/app: the Home component)\<close>

text \<open>
  The component keeps four pieces of React state (\<open>callStatus\<close>, \<open>transcript\<close>,
  \<open>logs\<close>, \<open>sessionId\<close>) and four refs (\<open>audioRef\<close>, \<open>recognitionRef\<close>,
  \<open>silenceTimerRef\<close>, \<open>accumulatedTextRef\<close>). Its handlers are modelled as functions
  on a record of that state. Everything a handler does to the outside (a fetch, an alert,
  a console message, a call on the recognition object or on an audio element) is appended
  to a trace, in program order. An \<open>async\<close> handler is split at its \<open>await\<close>: the part
  before it issues the request, the part after it is a second function that takes what the
  request settled to.

  State setters and refs always act on the current state. \<open>sessionId\<close> is different:
  a handler reads it from the render it was created in. The buttons are bound to the
  handlers of the latest render, so \<open>endCall\<close> reads the current session id. The
  recognition handlers are installed by an effect that runs when the page is mounted
  and again whenever \<open>sessionId\<close> changes, each time on a new recognition object; the
  \<open>handleUserSpeech\<close> that a silence timer calls is the one of the render in which
  the recognition object that armed the timer got its handlers, and it reads the
  session id of that render. So every recognition object is kept with the session id
  its handlers hold, every pending timer with the session id its callback will use,
  and \<open>handleUserSpeech\<close> takes the session id it reads as an argument.
\<close>

subsection \<open>JavaScript strings and values\<close>

text \<open>A JavaScript string is a sequence of UTF-16 code units.\<close>

type_synonym jsstring = "16 word list"

definition js :: "string \<Rightarrow> jsstring" where
  "js s = map (\<lambda>c. of_nat (of_char c)) s"

text \<open>
  \<open>String.prototype.trim\<close> removes the code units of ECMAScript's WhiteSpace and
  LineTerminator productions from both ends.
\<close>

definition is_js_whitespace :: "16 word \<Rightarrow> bool" where
  "is_js_whitespace c \<longleftrightarrow>
     c = 0x0009 \<or> c = 0x000A \<or> c = 0x000B \<or> c = 0x000C \<or> c = 0x000D \<or> c = 0x0020 \<or>
     c = 0x00A0 \<or> c = 0x1680 \<or> (0x2000 \<le> c \<and> c \<le> 0x200A) \<or> c = 0x2028 \<or>
     c = 0x2029 \<or> c = 0x202F \<or> c = 0x205F \<or> c = 0x3000 \<or> c = 0xFEFF"

definition js_trim :: "jsstring \<Rightarrow> jsstring" where
  "js_trim t = rev (dropWhile is_js_whitespace (rev (dropWhile is_js_whitespace t)))"

text \<open>
  A value that is a string or absent (\<open>undefined\<close>, \<open>null\<close>): \<open>None\<close> and the empty
  string are the falsy ones.
\<close>

definition truthy :: "jsstring option \<Rightarrow> bool" where
  "truthy v = (case v of None \<Rightarrow> False | Some t \<Rightarrow> t \<noteq> [])"

text \<open>What a template literal prints for such a value, and for a number.\<close>

definition to_str :: "jsstring option \<Rightarrow> jsstring" where
  "to_str v = (case v of None \<Rightarrow> js ''undefined'' | Some t \<Rightarrow> t)"

fun decimal :: "nat \<Rightarrow> jsstring" where
  "decimal n = (if n < 10 then [of_nat (48 + n)]
                else decimal (n div 10) @ [of_nat (48 + n mod 10)])"

declare decimal.simps [simp del]

text \<open>
  A parsed JSON object, read by field name as \<open>data.f\<close> is; the fields this page reads
  hold strings. A field the object does not have reads as \<open>undefined\<close>.
\<close>

type_synonym json_obj = "(string \<times> jsstring) list"

definition field :: "json_obj \<Rightarrow> string \<Rightarrow> jsstring option" where
  "field d f = map_of d f"

text \<open>
  What \<open>await fetch(...)\<close> followed by \<open>await res.json()\<close> gives inside a \<open>try\<close>: a
  parsed body, or an exception (the request failed, or the body was not JSON).
\<close>

datatype fetch_result = Rejected | Resolved json_obj

text \<open>
  \<open>endCall\<close> awaits the fetch only and never reads the response: the request resolves
  with some HTTP status, or rejects.
\<close>

datatype end_result = End_rejected | End_resolved nat

subsection \<open>State\<close>

datatype CallStatus = IDLE | LISTENING | PROCESSING | SPEAKING | SAVING

record log_entry =
  sender :: jsstring
  log_text :: "jsstring option"

record audio =
  src :: jsstring
  playing :: bool

datatype request =
    Greet
  | Chat jsstring jsstring
  | End_call jsstring

datatype effect =
    Fetch request
  | Alert jsstring
  | Console_error_exn
  | Console_error jsstring
  | Recognition_start nat
  | Recognition_stop nat
  | Audio_pause nat
  | Audio_play nat
  | Uncaught_TypeError

text \<open>
  \<open>audios\<close> is the heap of \<open>Audio\<close> elements the page has created, an element's handle
  being its position. \<open>recognizers\<close> is the heap of recognition objects the effect has
  created, each given by the session id its handlers hold, and \<open>recognitionRef\<close> the
  handle of the latest; \<open>speechSupported\<close> says whether the browser has speech
  recognition at all. \<open>timers\<close> holds, by timer id, what a pending \<open>setTimeout\<close>
  callback has captured: \<open>currentTranscript\<close> and the session id its
  \<open>handleUserSpeech\<close> reads (\<open>None\<close> once the timer is cleared or has fired).
\<close>

record state =
  callStatus :: CallStatus
  transcript :: "jsstring option"
  logs :: "log_entry list"
  sessionId :: "jsstring option"
  audios :: "audio list"
  audioRef :: "nat option"
  speechSupported :: bool
  recognizers :: "jsstring option list"
  recognitionRef :: "nat option"
  timers :: "(jsstring \<times> jsstring option) option list"
  silenceTimerRef :: "nat option"
  accumulatedTextRef :: jsstring
  effects :: "effect list"

text \<open>The values the environment supplies to \<open>playAudio\<close>: \<open>Date.now()\<close>, and whether
  the promise of \<open>audio.play()\<close> is fulfilled (when it is not, the element does not play
  and the \<open>catch\<close> callback writes to the console).\<close>

record env =
  now :: nat
  play_ok :: bool

text \<open>
  The effect with dependency \<open>sessionId\<close>: in a browser with speech recognition it
  creates a recognition object, installs the handlers of the current render on it and
  stores it in \<open>recognitionRef\<close>. It runs after the first render and after every render
  in which \<open>sessionId\<close> has changed (\<open>null\<close> and \<open>undefined\<close> are one value here).
\<close>

definition install_recognition :: "state \<Rightarrow> state" where
  "install_recognition s =
     (if speechSupported s
      then s\<lparr>recognizers := recognizers s @ [sessionId s],
             recognitionRef := Some (length (recognizers s))\<rparr>
      else s)"

definition setSessionId :: "jsstring option \<Rightarrow> state \<Rightarrow> state" where
  "setSessionId v s = (if v = sessionId s then s else install_recognition (s\<lparr>sessionId := v\<rparr>))"

definition init :: "bool \<Rightarrow> state" where
  "init supported = install_recognition
     \<lparr> callStatus = IDLE,
       transcript = Some (js ''Click '' @ [0x27] @ js ''Start Conversation'' @ [0x27]
                          @ js '' to begin...''),
       logs = [], sessionId = None, audios = [], audioRef = None,
       speechSupported = supported, recognizers = [], recognitionRef = None,
       timers = [], silenceTimerRef = None,
       accumulatedTextRef = [], effects = [] \<rparr>"

subsection \<open>Handlers\<close>

definition emit :: "effect \<Rightarrow> state \<Rightarrow> state" where
  "emit e s = s\<lparr>effects := effects s @ [e]\<rparr>"

definition addLog :: "jsstring \<Rightarrow> jsstring option \<Rightarrow> state \<Rightarrow> state" where
  "addLog who t s = s\<lparr>logs := logs s @ [\<lparr>sender = who, log_text = t\<rparr>]\<rparr>"

text \<open>\<open>if (audioRef.current) audioRef.current.pause();\<close>\<close>

definition pause_at :: "nat \<Rightarrow> audio list \<Rightarrow> audio list" where
  "pause_at h as = (if h < length as then as[h := (as ! h)\<lparr>playing := False\<rparr>] else as)"

definition pause_current :: "state \<Rightarrow> state" where
  "pause_current s =
     (case audioRef s of
        None \<Rightarrow> s
      | Some h \<Rightarrow> emit (Audio_pause h) (s\<lparr>audios := pause_at h (audios s)\<rparr>))"

text \<open>\<open>if (silenceTimerRef.current) clearTimeout(silenceTimerRef.current);\<close>
  (a timer id of the browser is a positive number, so a set ref is truthy).\<close>

definition clear_silence_timer :: "state \<Rightarrow> state" where
  "clear_silence_timer s =
     (case silenceTimerRef s of
        None \<Rightarrow> s
      | Some t \<Rightarrow> s\<lparr>timers := (timers s)[t := None]\<rparr>)"

definition playAudio :: "jsstring option \<Rightarrow> jsstring option \<Rightarrow> env \<Rightarrow> state \<Rightarrow> state" where
  "playAudio url textDisplay e s =
     (let s1 = s\<lparr>callStatus := SPEAKING\<rparr>;
          s2 = addLog (js ''Aria'') textDisplay s1;
          s3 = s2\<lparr>transcript := textDisplay\<rparr>;
          s4 = pause_current s3;
          h = length (audios s4);
          a = \<lparr>src = to_str url @ js ''?t='' @ decimal (now e), playing = play_ok e\<rparr>;
          s5 = s4\<lparr>audios := audios s4 @ [a], audioRef := Some h\<rparr>;
          s6 = emit (Audio_play h) s5
      in if play_ok e then s6 else emit (Console_error (js ''Audio play failed:'')) s6)"

text \<open>The \<open>onended\<close> handler that \<open>playAudio\<close> installs on the element it creates.\<close>

definition audio_onended :: "state \<Rightarrow> state" where
  "audio_onended s =
     (let s1 = s\<lparr>callStatus := LISTENING, accumulatedTextRef := []\<rparr>
      in case recognitionRef s1 of
           Some k \<Rightarrow> emit (Recognition_start k) s1
         | None \<Rightarrow> emit Uncaught_TypeError s1)"

text \<open>\<open>recognitionRef.current.onstart\<close>\<close>

definition onstart :: "state \<Rightarrow> state" where
  "onstart s = s\<lparr>callStatus := (if callStatus s = SAVING then SAVING else LISTENING)\<rparr>"

text \<open>\<open>startCall\<close> up to its \<open>await\<close>, and from there on.\<close>

definition startCall :: "state \<Rightarrow> state" where
  "startCall s =
     emit (Fetch Greet)
       (s\<lparr>callStatus := PROCESSING, transcript := Some (js ''Connecting to Aria...''),
          logs := []\<rparr>)"

definition greet_settled :: "fetch_result \<Rightarrow> env \<Rightarrow> state \<Rightarrow> state" where
  "greet_settled r e s =
     (case r of
        Resolved d \<Rightarrow>
          playAudio (field d ''audio_url'') (field d ''text'') e
            (setSessionId (field d ''session_id'') s)
      | Rejected \<Rightarrow>
          (emit Console_error_exn s)
            \<lparr>transcript := Some (js ''Error connecting to server.''), callStatus := IDLE\<rparr>)"

text \<open>\<open>handleUserSpeech\<close> up to its \<open>await\<close>, and from there on. The first argument
  is the \<open>sessionId\<close> of the render this \<open>handleUserSpeech\<close> belongs to.\<close>

definition handleUserSpeech :: "jsstring option \<Rightarrow> jsstring \<Rightarrow> state \<Rightarrow> state" where
  "handleUserSpeech sid t s =
     (if \<not> truthy (Some (js_trim t)) \<or> \<not> truthy sid then s
      else emit (Fetch (Chat t (to_str sid)))
             (addLog (js ''Guest'') (Some t) (s\<lparr>callStatus := PROCESSING\<rparr>)))"

definition chat_settled :: "fetch_result \<Rightarrow> env \<Rightarrow> state \<Rightarrow> state" where
  "chat_settled r e s =
     (case r of
        Resolved d \<Rightarrow>
          if truthy (field d ''error'')
          then (emit (Alert (js ''Session Expired.'')) s)\<lparr>callStatus := IDLE\<rparr>
          else playAudio (field d ''audio_url'') (field d ''text'') e s
      | Rejected \<Rightarrow>
          s\<lparr>transcript := Some (js ''Connection Error.''), callStatus := IDLE\<rparr>)"

text \<open>The \<open>onresult\<close> handler of a recognition object: the loop over \<open>event.results\<close>
  from \<open>event.resultIndex\<close>, each result given by the transcript of its first
  alternative. The first argument of \<open>onresult\<close> is the session id the handlers of
  that object hold; the timer callback takes it along.\<close>

function collect :: "jsstring list \<Rightarrow> nat \<Rightarrow> jsstring \<Rightarrow> jsstring" where
  "collect results i cur =
     (if i < length results then collect results (Suc i) (cur @ results ! i) else cur)"
  by pat_completeness auto
termination
  by (relation "measure (\<lambda>(results, i, cur). length results - i)") auto

declare collect.simps [simp del]

definition onresult :: "jsstring option \<Rightarrow> nat \<Rightarrow> jsstring list \<Rightarrow> state \<Rightarrow> state" where
  "onresult sid resultIndex results s =
     (let currentTranscript = collect results resultIndex [];
          s1 = s\<lparr>transcript := Some currentTranscript\<rparr>;
          s2 = clear_silence_timer s1
      in s2\<lparr>timers := timers s2 @ [Some (currentTranscript, sid)],
             silenceTimerRef := Some (length (timers s2))\<rparr>)"

text \<open>The callback of the silence timer with id \<open>t\<close>, run by the browser two seconds
  after it was set unless the timer was cleared: it stops the current recognition
  object (\<open>recognitionRef.current\<close>, read when the callback runs) and calls the
  \<open>handleUserSpeech\<close> it has captured.\<close>

definition silence_timeout :: "nat \<Rightarrow> state \<Rightarrow> state" where
  "silence_timeout t s =
     (case (if t < length (timers s) then timers s ! t else None) of
        None \<Rightarrow> s
      | Some (currentTranscript, sid) \<Rightarrow>
          (let s1 = s\<lparr>timers := (timers s)[t := None]\<rparr>
           in case recognitionRef s1 of
                None \<Rightarrow> emit Uncaught_TypeError s1
              | Some k \<Rightarrow>
                  handleUserSpeech sid currentTranscript
                    ((emit (Recognition_stop k) s1)
                       \<lparr>accumulatedTextRef := currentTranscript\<rparr>)))"

text \<open>\<open>endCall\<close>: the statements after the \<open>if (sessionId)\<close> block, the handler up to
  its \<open>await\<close> (all of it when there is no session id), and the rest of the block once
  the request has settled.\<close>

definition endCall_reset :: "state \<Rightarrow> state" where
  "endCall_reset s = s\<lparr>callStatus := IDLE, transcript := Some (js ''Call Ended. Log saved.'')\<rparr>"

definition endCall :: "state \<Rightarrow> state" where
  "endCall s =
     (let s1 = pause_current s;
          s2 = (case recognitionRef s1 of
                  Some k \<Rightarrow> emit (Recognition_stop k) s1
                | None \<Rightarrow> s1);
          s3 = clear_silence_timer s2;
          s4 = s3\<lparr>callStatus := SAVING,
                  transcript := Some (js ''Saving call summary to CRM...'')\<rparr>
      in if truthy (sessionId s) then emit (Fetch (End_call (to_str (sessionId s)))) s4
         else endCall_reset s4)"

definition end_settled :: "end_result \<Rightarrow> state \<Rightarrow> state" where
  "end_settled r s =
     (let s1 = (case r of
                  End_rejected \<Rightarrow> emit (Console_error (js ''Failed to save log'')) s
                | End_resolved code \<Rightarrow> s)
      in endCall_reset (setSessionId None s1))"

subsection \<open>Events\<close>

text \<open>
  What can happen to the page: a click on the one button it shows (Start Conversation when
  the status is IDLE, a disabled button when it is SAVING, End Call otherwise), an event
  of one of the recognition objects the page has created (named by its handle), a timer
  firing, a playing audio element reaching its end, and a request settling.
\<close>

datatype event =
    Click_start
  | Click_end
  | Recognition_started nat
  | Recognition_result nat nat "jsstring list"
  | Silence_timeout nat
  | Audio_ended nat
  | Greet_settled fetch_result env
  | Chat_settled fetch_result env
  | End_settled end_result

definition step :: "event \<Rightarrow> state \<Rightarrow> state" where
  "step ev s =
     (case ev of
        Click_start \<Rightarrow> if callStatus s = IDLE then startCall s else s
      | Click_end \<Rightarrow> if callStatus s \<noteq> IDLE \<and> callStatus s \<noteq> SAVING then endCall s else s
      | Recognition_started k \<Rightarrow> if k < length (recognizers s) then onstart s else s
      | Recognition_result k i rs \<Rightarrow>
          if k < length (recognizers s) then onresult (recognizers s ! k) i rs s else s
      | Silence_timeout t \<Rightarrow> silence_timeout t s
      | Audio_ended h \<Rightarrow>
          if h < length (audios s) \<and> playing (audios s ! h)
          then audio_onended (s\<lparr>audios := pause_at h (audios s)\<rparr>) else s
      | Greet_settled r e \<Rightarrow> greet_settled r e s
      | Chat_settled r e \<Rightarrow> chat_settled r e s
      | End_settled r \<Rightarrow> end_settled r s)"

fun run :: "event list \<Rightarrow> state \<Rightarrow> state" where
  "run [] s = s"
| "run (ev # evs) s = run evs (step ev s)"

subsection \<open>Notions used by the properties\<close>

text \<open>The session ids of the \<open>end_call\<close> requests in a trace, in order.\<close>

fun end_call_requests :: "effect list \<Rightarrow> jsstring list" where
  "end_call_requests [] = []"
| "end_call_requests (Fetch (End_call sid) # es) = sid # end_call_requests es"
| "end_call_requests (x # es) = end_call_requests es"

text \<open>The one event whose handler stores a session id.\<close>

definition stores_session :: "event \<Rightarrow> bool" where
  "stores_session ev = (case ev of Greet_settled r e \<Rightarrow> True | _ \<Rightarrow> False)"

text \<open>The handles of the audio elements that are playing.\<close>

definition playing_handles :: "state \<Rightarrow> nat list" where
  "playing_handles s = filter (\<lambda>h. playing (audios s ! h)) [0 ..< length (audios s)]"

text \<open>Only the element \<open>audioRef\<close> points to can be playing.\<close>

definition audio_inv :: "state \<Rightarrow> bool" where
  "audio_inv s \<longleftrightarrow>
     (\<forall>h < length (audios s). playing (audios s ! h) \<longrightarrow> audioRef s = Some h)"


text \<open>
  The events that resume work begun earlier: a request settling, which runs the rest of
  the handler that awaited it, and a silence timer firing, which runs its callback.
  The others are the clicks, the events of the recognition objects and the end of an
  audio.
\<close>

definition resumes :: "event \<Rightarrow> bool" where
  "resumes ev = (case ev of Greet_settled r e \<Rightarrow> True | Chat_settled r e \<Rightarrow> True
     | End_settled r \<Rightarrow> True | Silence_timeout t \<Rightarrow> True | _ \<Rightarrow> False)"


text \<open>The audio heap once \<open>audioRef.current\<close>, if set, has been paused.\<close>

definition paused :: "state \<Rightarrow> audio list" where
  "paused s = (case audioRef s of None \<Rightarrow> audios s | Some k \<Rightarrow> pause_at k (audios s))"

text \<open>
  Modelled from the spec: the chat endpoint, which is not among the sources, answers a
  chat turn with \<open>{reply_text, audio_url}\<close>, or with \<open>{error}\<close> when the session is
  unknown or expired. On the client's side the absence of the session is therefore the
  presence of an \<open>error\<close> in the body of the response.
\<close>

definition session_absent :: "json_obj \<Rightarrow> bool" where
  "session_absent d = truthy (field d ''error'')"

subsection \<open>A call, step by step\<close>

text \<open>
  The page in a browser with speech recognition: Start Conversation is clicked
  (\<open>s_connecting\<close>), the greeting arrives and is played (\<open>s_speaking\<close>), the greeting
  ends and recognition starts (\<open>s_live\<close>), the guest says hello and falls silent, so
  that the chat request is on its way (\<open>s_asked\<close>).
\<close>

definition e0 :: env where
  "e0 = \<lparr>now = 7, play_ok = True\<rparr>"

definition greeting :: json_obj where
  "greeting = [(''session_id'', js ''s1''), (''text'', js ''Welcome''),
               (''audio_url'', js ''/greet.mp3'')]"

definition reply :: json_obj where
  "reply = [(''text'', js ''Hi''), (''audio_url'', js ''/a.mp3'')]"

definition s_connecting :: state where
  "s_connecting = step Click_start (init True)"

definition s_speaking :: state where
  "s_speaking = step (Greet_settled (Resolved greeting) e0) s_connecting"

definition s_live :: state where
  "s_live = run [Audio_ended 0, Recognition_started 1] s_speaking"

definition s_asked :: state where
  "s_asked = run [Recognition_result 1 0 [js ''hel'', js ''lo''], Silence_timeout 0] s_live"

text \<open>
  Two end-of-calls for one session: the guest ends the call; the recognition object,
  being stopped, delivers a last result, whose silence timer fires while the
  \<open>end_call\<close> request is still on its way; the status is PROCESSING again, the End Call
  button is back, and the guest clicks it once more.
\<close>

definition ended_twice :: "event list" where
  "ended_twice =
     [Click_end, Recognition_result 1 0 [js ''bye''], Silence_timeout 0, Click_end,
      End_settled (End_resolved 200), End_settled (End_resolved 200)]"

text \<open>
  Listening while Aria speaks: the guest's words reach the page as two results, each
  of which ends in a chat request. The first reply is played to its end, so that
  recognition is started; before the recognition object reports that it has started,
  the second reply arrives and is played.
\<close>

definition overlapping_turns :: "event list" where
  "overlapping_turns =
     [Click_start, Greet_settled (Resolved greeting) e0, Audio_ended 0,
      Recognition_started 1,
      Recognition_result 1 0 [js ''hello''], Silence_timeout 0,
      Recognition_result 1 0 [js ''there''], Chat_settled (Resolved reply) e0,
      Silence_timeout 1, Audio_ended 1, Chat_settled (Resolved reply) e0,
      Recognition_started 1]"

lemmas eval_defs =
  js_def truthy_def field_def to_str_def decimal.simps collect.simps js_trim_def
  is_js_whitespace_def install_recognition_def setSessionId_def init_def emit_def addLog_def
  pause_at_def pause_current_def
  clear_silence_timer_def playAudio_def audio_onended_def onstart_def startCall_def
  greet_settled_def handleUserSpeech_def chat_settled_def onresult_def silence_timeout_def
  endCall_reset_def endCall_def end_settled_def step_def Let_def stores_session_def
  resumes_def session_absent_def
  e0_def greeting_def reply_def s_connecting_def s_speaking_def s_live_def s_asked_def
  ended_twice_def overlapping_turns_def

section \<open>What each handler reads and writes\<close>

lemma js_trim_empty: "js_trim t = [] \<longleftrightarrow> list_all is_js_whitespace t"
proof
  assume "js_trim t = []"
  then have all: "\<forall>x \<in> set (dropWhile is_js_whitespace t). is_js_whitespace x"
    by (simp add: js_trim_def dropWhile_eq_Nil_conv)
  have "dropWhile is_js_whitespace t = []"
  proof (rule ccontr)
    assume ne: "dropWhile is_js_whitespace t \<noteq> []"
    then have "\<not> is_js_whitespace (hd (dropWhile is_js_whitespace t))"
      by (rule hd_dropWhile)
    moreover have "hd (dropWhile is_js_whitespace t) \<in> set (dropWhile is_js_whitespace t)"
      using ne by simp
    ultimately show False using all by blast
  qed
  then show "list_all is_js_whitespace t"
    by (simp add: dropWhile_eq_Nil_conv list_all_iff)
next
  assume "list_all is_js_whitespace t"
  then have "dropWhile is_js_whitespace t = []"
    by (simp add: dropWhile_eq_Nil_conv list_all_iff)
  then show "js_trim t = []"
    by (simp only: js_trim_def rev.simps dropWhile.simps)
qed

lemma end_call_requests_append:
  "end_call_requests (xs @ ys) = end_call_requests xs @ end_call_requests ys"
  by (induction xs rule: end_call_requests.induct) simp_all

lemma emit_simps:
  "effects (emit x s) = effects s @ [x]"
  "callStatus (emit x s) = callStatus s"
  "transcript (emit x s) = transcript s"
  "logs (emit x s) = logs s"
  "sessionId (emit x s) = sessionId s"
  "audios (emit x s) = audios s"
  "audioRef (emit x s) = audioRef s"
  "recognizers (emit x s) = recognizers s"
  "recognitionRef (emit x s) = recognitionRef s"
  "timers (emit x s) = timers s"
  "silenceTimerRef (emit x s) = silenceTimerRef s"
  by (simp_all add: emit_def)

lemma addLog_simps:
  "logs (addLog who t s) = logs s @ [\<lparr>sender = who, log_text = t\<rparr>]"
  "effects (addLog who t s) = effects s"
  "callStatus (addLog who t s) = callStatus s"
  "transcript (addLog who t s) = transcript s"
  "sessionId (addLog who t s) = sessionId s"
  "audios (addLog who t s) = audios s"
  "audioRef (addLog who t s) = audioRef s"
  "recognizers (addLog who t s) = recognizers s"
  "recognitionRef (addLog who t s) = recognitionRef s"
  "timers (addLog who t s) = timers s"
  "silenceTimerRef (addLog who t s) = silenceTimerRef s"
  by (simp_all add: addLog_def)

lemma setSessionId_simps:
  "sessionId (setSessionId v s) = v"
  "effects (setSessionId v s) = effects s"
  "callStatus (setSessionId v s) = callStatus s"
  "transcript (setSessionId v s) = transcript s"
  "logs (setSessionId v s) = logs s"
  "audios (setSessionId v s) = audios s"
  "audioRef (setSessionId v s) = audioRef s"
  "timers (setSessionId v s) = timers s"
  "silenceTimerRef (setSessionId v s) = silenceTimerRef s"
  by (simp_all add: setSessionId_def install_recognition_def)

lemma length_pause_at: "length (pause_at h as) = length as"
  by (simp add: pause_at_def)

lemma pause_at_nth:
  "h < length as \<Longrightarrow> playing (pause_at k as ! h) = (h \<noteq> k \<and> playing (as ! h))"
  by (simp add: pause_at_def nth_list_update)

lemma length_paused: "length (paused s) = length (audios s)"
  by (simp add: paused_def length_pause_at split: option.split)

lemma pause_current_simps:
  "effects (pause_current s) =
     effects s @ (case audioRef s of None \<Rightarrow> [] | Some h \<Rightarrow> [Audio_pause h])"
  "audios (pause_current s) = paused s"
  "callStatus (pause_current s) = callStatus s"
  "transcript (pause_current s) = transcript s"
  "logs (pause_current s) = logs s"
  "sessionId (pause_current s) = sessionId s"
  "audioRef (pause_current s) = audioRef s"
  "recognizers (pause_current s) = recognizers s"
  "recognitionRef (pause_current s) = recognitionRef s"
  "timers (pause_current s) = timers s"
  "silenceTimerRef (pause_current s) = silenceTimerRef s"
  by (simp_all add: pause_current_def paused_def emit_simps split: option.split)

lemma clear_silence_timer_simps:
  "effects (clear_silence_timer s) = effects s"
  "audios (clear_silence_timer s) = audios s"
  "callStatus (clear_silence_timer s) = callStatus s"
  "transcript (clear_silence_timer s) = transcript s"
  "logs (clear_silence_timer s) = logs s"
  "sessionId (clear_silence_timer s) = sessionId s"
  "audioRef (clear_silence_timer s) = audioRef s"
  "recognizers (clear_silence_timer s) = recognizers s"
  "recognitionRef (clear_silence_timer s) = recognitionRef s"
  "silenceTimerRef (clear_silence_timer s) = silenceTimerRef s"
  "length (timers (clear_silence_timer s)) = length (timers s)"
  by (simp_all add: clear_silence_timer_def split: option.split)


lemma playAudio_simps:
  "callStatus (playAudio url txt e s) = SPEAKING"
  "transcript (playAudio url txt e s) = txt"
  "logs (playAudio url txt e s) = logs s @ [\<lparr>sender = js ''Aria'', log_text = txt\<rparr>]"
  "sessionId (playAudio url txt e s) = sessionId s"
  "audioRef (playAudio url txt e s) = Some (length (audios s))"
  "recognizers (playAudio url txt e s) = recognizers s"
  "recognitionRef (playAudio url txt e s) = recognitionRef s"
  "timers (playAudio url txt e s) = timers s"
  "silenceTimerRef (playAudio url txt e s) = silenceTimerRef s"
  by (simp_all add: playAudio_def Let_def emit_simps addLog_simps pause_current_simps
        length_paused)

lemma playAudio_audios:
  "audios (playAudio url txt e s) =
     paused s @ [\<lparr>src = to_str url @ js ''?t='' @ decimal (now e), playing = play_ok e\<rparr>]"
  by (simp add: playAudio_def Let_def emit_simps addLog_simps pause_current_simps paused_def
        split: option.split)

lemma playAudio_effects:
  "effects (playAudio url txt e s) =
     effects s @ (case audioRef s of None \<Rightarrow> [] | Some h \<Rightarrow> [Audio_pause h])
     @ [Audio_play (length (audios s))]
     @ (if play_ok e then [] else [Console_error (js ''Audio play failed:'')])"
  by (simp add: playAudio_def Let_def emit_simps addLog_simps pause_current_simps
        length_paused split: option.split)

lemma audio_onended_simps:
  "logs (audio_onended s) = logs s"
  "sessionId (audio_onended s) = sessionId s"
  "audioRef (audio_onended s) = audioRef s"
  "audios (audio_onended s) = audios s"
  "recognizers (audio_onended s) = recognizers s"
  "recognitionRef (audio_onended s) = recognitionRef s"
  "timers (audio_onended s) = timers s"
  "silenceTimerRef (audio_onended s) = silenceTimerRef s"
  "callStatus (audio_onended s) = LISTENING"
  "effects (audio_onended s)
     = effects s @ [case recognitionRef s of Some k \<Rightarrow> Recognition_start k
                    | None \<Rightarrow> Uncaught_TypeError]"
  by (simp_all add: audio_onended_def Let_def emit_simps split: option.split)

lemma onstart_simps:
  "logs (onstart s) = logs s"
  "sessionId (onstart s) = sessionId s"
  "audioRef (onstart s) = audioRef s"
  "audios (onstart s) = audios s"
  "recognizers (onstart s) = recognizers s"
  "recognitionRef (onstart s) = recognitionRef s"
  "timers (onstart s) = timers s"
  "silenceTimerRef (onstart s) = silenceTimerRef s"
  "effects (onstart s) = effects s"
  by (simp_all add: onstart_def)

lemma onresult_simps:
  "logs (onresult sid i rs s) = logs s"
  "sessionId (onresult sid i rs s) = sessionId s"
  "audioRef (onresult sid i rs s) = audioRef s"
  "audios (onresult sid i rs s) = audios s"
  "recognizers (onresult sid i rs s) = recognizers s"
  "recognitionRef (onresult sid i rs s) = recognitionRef s"
  "effects (onresult sid i rs s) = effects s"
  "callStatus (onresult sid i rs s) = callStatus s"
  by (simp_all add: onresult_def Let_def clear_silence_timer_simps)

lemma startCall_simps:
  "sessionId (startCall s) = sessionId s"
  "audioRef (startCall s) = audioRef s"
  "audios (startCall s) = audios s"
  "recognizers (startCall s) = recognizers s"
  "recognitionRef (startCall s) = recognitionRef s"
  "timers (startCall s) = timers s"
  "silenceTimerRef (startCall s) = silenceTimerRef s"
  "effects (startCall s) = effects s @ [Fetch Greet]"
  by (simp_all add: startCall_def emit_simps)

lemma handleUserSpeech_simps:
  "sessionId (handleUserSpeech sid t s) = sessionId s"
  "audios (handleUserSpeech sid t s) = audios s"
  "audioRef (handleUserSpeech sid t s) = audioRef s"
  "recognizers (handleUserSpeech sid t s) = recognizers s"
  "recognitionRef (handleUserSpeech sid t s) = recognitionRef s"
  "timers (handleUserSpeech sid t s) = timers s"
  "silenceTimerRef (handleUserSpeech sid t s) = silenceTimerRef s"
  "prefix (logs s) (logs (handleUserSpeech sid t s))"
  "end_call_requests (effects (handleUserSpeech sid t s)) = end_call_requests (effects s)"
  by (simp_all add: handleUserSpeech_def emit_simps addLog_simps end_call_requests_append)

lemma silence_timeout_simps:
  "sessionId (silence_timeout t s) = sessionId s"
  "audioRef (silence_timeout t s) = audioRef s"
  "audios (silence_timeout t s) = audios s"
  "recognizers (silence_timeout t s) = recognizers s"
  "recognitionRef (silence_timeout t s) = recognitionRef s"
  "silenceTimerRef (silence_timeout t s) = silenceTimerRef s"
  "prefix (logs s) (logs (silence_timeout t s))"
  "end_call_requests (effects (silence_timeout t s)) = end_call_requests (effects s)"
  by (simp_all add: silence_timeout_def Let_def handleUserSpeech_simps emit_simps
        end_call_requests_append split: option.split prod.split)
     (simp_all add: handleUserSpeech_def emit_simps addLog_simps)



lemma chat_settled_simps:
  "sessionId (chat_settled r e s) = sessionId s"
  "recognizers (chat_settled r e s) = recognizers s"
  "recognitionRef (chat_settled r e s) = recognitionRef s"
  "timers (chat_settled r e s) = timers s"
  "silenceTimerRef (chat_settled r e s) = silenceTimerRef s"
  "prefix (logs s) (logs (chat_settled r e s))"
  "end_call_requests (effects (chat_settled r e s)) = end_call_requests (effects s)"
  by (simp_all add: chat_settled_def emit_simps playAudio_simps playAudio_effects
        end_call_requests_append split: fetch_result.split option.split)

lemma greet_settled_simps:
  "timers (greet_settled r e s) = timers s"
  "silenceTimerRef (greet_settled r e s) = silenceTimerRef s"
  "prefix (logs s) (logs (greet_settled r e s))"
  "end_call_requests (effects (greet_settled r e s)) = end_call_requests (effects s)"
  by (simp_all add: greet_settled_def emit_simps playAudio_simps playAudio_effects
        setSessionId_simps end_call_requests_append split: fetch_result.split option.split)

lemma endCall_simps:
  "logs (endCall s) = logs s"
  "sessionId (endCall s) = sessionId s"
  "audioRef (endCall s) = audioRef s"
  "recognizers (endCall s) = recognizers s"
  "recognitionRef (endCall s) = recognitionRef s"
  "silenceTimerRef (endCall s) = silenceTimerRef s"
  "timers (endCall s) = timers (clear_silence_timer s)"
  "audios (endCall s) = paused s"
  "callStatus (endCall s) = (if truthy (sessionId s) then SAVING else IDLE)"
  "transcript (endCall s) = Some (if truthy (sessionId s)
      then js ''Saving call summary to CRM...'' else js ''Call Ended. Log saved.'')"
  by (simp_all add: endCall_def endCall_reset_def Let_def emit_simps pause_current_simps
        clear_silence_timer_simps clear_silence_timer_def split: option.split)

lemma endCall_effects:
  "effects (endCall s) =
     effects s @ (case audioRef s of None \<Rightarrow> [] | Some h \<Rightarrow> [Audio_pause h])
       @ (case recognitionRef s of None \<Rightarrow> [] | Some k \<Rightarrow> [Recognition_stop k])
       @ (if truthy (sessionId s) then [Fetch (End_call (to_str (sessionId s)))] else [])"
  by (simp add: endCall_def endCall_reset_def Let_def emit_simps pause_current_simps
        clear_silence_timer_simps split: option.split)

lemma end_settled_simps:
  "logs (end_settled r s) = logs s"
  "sessionId (end_settled r s) = None"
  "audioRef (end_settled r s) = audioRef s"
  "audios (end_settled r s) = audios s"
  "timers (end_settled r s) = timers s"
  "silenceTimerRef (end_settled r s) = silenceTimerRef s"
  "callStatus (end_settled r s) = IDLE"
  "transcript (end_settled r s) = Some (js ''Call Ended. Log saved.'')"
  "effects (end_settled r s) =
     effects s @ (case r of End_rejected \<Rightarrow> [Console_error (js ''Failed to save log'')]
                  | End_resolved code \<Rightarrow> [])"
  by (simp_all add: end_settled_def endCall_reset_def Let_def emit_simps setSessionId_simps
        split: end_result.split)

section \<open>Invariants of the event loop\<close>

subsection \<open>The log only grows\<close>

lemma logs_step_prefix:
  "ev = Click_start \<longrightarrow> callStatus s \<noteq> IDLE \<Longrightarrow> prefix (logs s) (logs (step ev s))"
  by (cases ev)
     (simp_all add: step_def endCall_simps onstart_simps onresult_simps silence_timeout_simps
        audio_onended_simps greet_settled_simps chat_settled_simps end_settled_simps)

lemma logs_run_prefix:
  "Click_start \<notin> set evs \<Longrightarrow> prefix (logs s) (logs (run evs s))"
proof (induction evs arbitrary: s)
  case Nil
  show ?case by simp
next
  case (Cons ev evs)
  have "prefix (logs s) (logs (step ev s))"
    using Cons.prems by (intro logs_step_prefix) auto
  moreover have "prefix (logs (step ev s)) (logs (run evs (step ev s)))"
    using Cons.prems by (intro Cons.IH) auto
  ultimately show ?case
    by (auto intro: prefix_order.trans)
qed

subsection \<open>Without a session id no \<open>end_call\<close> request leaves the page\<close>



subsection \<open>While saving, only resumed work changes the status\<close>





subsection \<open>Only the current audio element can be playing\<close>

lemma paused_silent:
  assumes "audio_inv s" and "h < length (audios s)"
  shows "\<not> playing (paused s ! h)"
proof (cases "audioRef s")
  case None
  with assms show ?thesis by (simp add: paused_def audio_inv_def)
next
  case (Some k)
  with assms show ?thesis by (auto simp: paused_def audio_inv_def pause_at_nth)
qed

lemma audio_inv_frame:
  "audios s' = audios s \<Longrightarrow> audioRef s' = audioRef s \<Longrightarrow> audio_inv s \<Longrightarrow> audio_inv s'"
  by (simp add: audio_inv_def)

lemma audio_inv_playAudio:
  assumes "audio_inv s"
  shows "audio_inv (playAudio url txt e s)"
proof -
  have "audioRef (playAudio url txt e s) = Some h"
    if "h < length (audios (playAudio url txt e s))"
      and "playing (audios (playAudio url txt e s) ! h)" for h
  proof (cases "h < length (audios s)")
    case True
    with that(2) paused_silent [OF assms True] show ?thesis
      by (simp add: playAudio_audios nth_append length_paused)
  next
    case False
    with that(1) have "h = length (audios s)"
      by (simp add: playAudio_audios length_paused)
    then show ?thesis by (simp add: playAudio_simps)
  qed
  then show ?thesis
    unfolding audio_inv_def by blast
qed

lemma audio_inv_endCall:
  assumes "audio_inv s"
  shows "audio_inv (endCall s)"
proof -
  have "\<not> playing (audios (endCall s) ! h)" if "h < length (audios (endCall s))" for h
    using that paused_silent [OF assms, of h] by (simp add: endCall_simps length_paused)
  then show ?thesis
    unfolding audio_inv_def by blast
qed

lemma audio_inv_step:
  assumes inv: "audio_inv s"
  shows "audio_inv (step ev s)"
proof (cases ev)
  case Click_start
  then show ?thesis
    using inv by (simp add: step_def audio_inv_frame [OF _ _ inv] startCall_simps)
next
  case Click_end
  then show ?thesis
    using inv by (simp add: step_def audio_inv_endCall)
next
  case (Recognition_started k)
  then show ?thesis
    using inv by (simp add: step_def audio_inv_frame [OF _ _ inv] onstart_simps)
next
  case (Recognition_result k i rs)
  then show ?thesis
    using inv by (simp add: step_def audio_inv_frame [OF _ _ inv] onresult_simps)
next
  case (Silence_timeout t)
  then show ?thesis
    by (simp add: step_def audio_inv_frame [OF _ _ inv] silence_timeout_simps)
next
  case (Audio_ended h)
  show ?thesis
  proof (cases "h < length (audios s) \<and> playing (audios s ! h)")
    case False
    with Audio_ended inv show ?thesis by (auto simp: step_def)
  next
    case True
    from True inv have ref: "audioRef s = Some h"
      by (simp add: audio_inv_def)
    have "\<not> playing (pause_at h (audios s) ! k)" if "k < length (audios s)" for k
    proof (cases "playing (audios s ! k)")
      case False
      with that show ?thesis by (simp add: pause_at_nth)
    next
      case playing: True
      with that inv have "audioRef s = Some k"
        by (simp add: audio_inv_def)
      with ref that show ?thesis by (simp add: pause_at_nth)
    qed
    then have "audio_inv (audio_onended (s\<lparr>audios := pause_at h (audios s)\<rparr>))"
      by (simp add: audio_inv_def audio_onended_simps length_pause_at)
    with Audio_ended True show ?thesis by (simp add: step_def)
  qed
next
  case (Greet_settled r e)
  show ?thesis
  proof (cases r)
    case Rejected
    with Greet_settled show ?thesis
      by (simp add: step_def greet_settled_def audio_inv_frame [OF _ _ inv] emit_simps)
  next
    case (Resolved d)
    have "audio_inv (setSessionId (field d ''session_id'') s)"
      by (simp add: audio_inv_frame [OF _ _ inv] setSessionId_simps)
    then show ?thesis
      using Greet_settled Resolved by (simp add: step_def greet_settled_def audio_inv_playAudio)
  qed
next
  case (Chat_settled r e)
  show ?thesis
  proof (cases r)
    case Rejected
    with Chat_settled show ?thesis
      by (simp add: step_def chat_settled_def audio_inv_frame [OF _ _ inv])
  next
    case (Resolved d)
    with Chat_settled show ?thesis
      by (simp add: step_def chat_settled_def audio_inv_playAudio [OF inv]
            audio_inv_frame [OF _ _ inv] emit_simps)
  qed
next
  case (End_settled r)
  then show ?thesis
    by (simp add: step_def audio_inv_frame [OF _ _ inv] end_settled_simps)
qed

lemma audio_inv_run: "audio_inv s \<Longrightarrow> audio_inv (run evs s)"
  by (induction evs arbitrary: s) (simp_all add: audio_inv_step)

lemma audio_inv_init: "audio_inv (init supported)"
  by (simp add: audio_inv_def init_def install_recognition_def)

lemma audio_inv_at_most_one:
  assumes inv: "audio_inv s"
  shows "length (playing_handles s) \<le> 1"
proof -
  have d: "distinct (playing_handles s)"
    by (simp add: playing_handles_def)
  have mem: "audioRef s = Some h" if "h \<in> set (playing_handles s)" for h
    using that inv by (simp add: playing_handles_def audio_inv_def)
  show ?thesis
  proof (cases "audioRef s")
    case None
    with mem have "set (playing_handles s) = {}" by fastforce
    then show ?thesis by simp
  next
    case (Some k)
    with mem have "set (playing_handles s) \<subseteq> {k}" by fastforce
    then have "card (set (playing_handles s)) \<le> card {k}"
      by (intro card_mono) simp_all
    with d show ?thesis
      by (simp add: distinct_card)
  qed
qed


subsection \<open>Only the current silence timer can be pending\<close>










subsection \<open>Recognition is started by the end of an audio only\<close>

lemma starts_handlers:
  "count_list (effects (handleUserSpeech sid t s)) (Recognition_start k)
     = count_list (effects s) (Recognition_start k)"
  "count_list (effects (playAudio url txt e s)) (Recognition_start k)
     = count_list (effects s) (Recognition_start k)"
  "count_list (effects (endCall s)) (Recognition_start k)
     = count_list (effects s) (Recognition_start k)"
  "count_list (effects (end_settled er s)) (Recognition_start k)
     = count_list (effects s) (Recognition_start k)"
  by (simp_all add: handleUserSpeech_def emit_simps addLog_simps playAudio_effects
        endCall_effects end_settled_simps split: option.split end_result.split)

lemma starts_step:
  assumes "\<forall>h. ev \<noteq> Audio_ended h"
  shows "count_list (effects (step ev s)) (Recognition_start k)
           = count_list (effects s) (Recognition_start k)"
  using assms
  by (cases ev)
     (simp_all add: step_def starts_handlers startCall_simps onstart_simps onresult_simps
        silence_timeout_def Let_def greet_settled_def chat_settled_def emit_simps
        setSessionId_simps split: option.split fetch_result.split prod.split)


lemma playAudio_pauses_previous:
  "length (playing_handles (run evs (init supported))) \<le> 1
   \<and> (audio_inv s \<longrightarrow>
        length (playing_handles (playAudio url txt e s)) \<le> 1
      \<and> (\<forall>h < length (audios s). \<not> playing (audios (playAudio url txt e s) ! h))
      \<and> effects (playAudio url txt e s)
          = effects s @ (case audioRef s of None \<Rightarrow> [] | Some h \<Rightarrow> [Audio_pause h])
              @ [Audio_play (length (audios s))]
              @ (if play_ok e then [] else [Console_error (js ''Audio play failed:'')])
      \<and> callStatus (playAudio url txt e s) = SPEAKING
      \<and> audioRef (playAudio url txt e s) = Some (length (audios s))
      \<and> (play_ok e \<longrightarrow>
           callStatus (step (Audio_ended (length (audios s))) (playAudio url txt e s)) = LISTENING
         \<and> effects (step (Audio_ended (length (audios s))) (playAudio url txt e s))
             = effects (playAudio url txt e s)
                 @ [case recognitionRef s of Some k \<Rightarrow> Recognition_start k
                    | None \<Rightarrow> Uncaught_TypeError]))
   \<and> ((\<forall>h. ev \<noteq> Audio_ended h) \<longrightarrow>
        count_list (effects (step ev s)) (Recognition_start k)
          = count_list (effects s) (Recognition_start k))"
proof -
  have a: "length (playing_handles (run evs (init supported))) \<le> 1"
    by (intro audio_inv_at_most_one audio_inv_run audio_inv_init)
  have b: "length (playing_handles (playAudio url txt e s)) \<le> 1" if "audio_inv s"
    using that by (intro audio_inv_at_most_one audio_inv_playAudio)
  have c: "\<not> playing (audios (playAudio url txt e s) ! h)"
    if "audio_inv s" "h < length (audios s)" for h
    using paused_silent [OF that] that(2)
    by (simp add: playAudio_audios nth_append length_paused)
  have d: "callStatus (step (Audio_ended (length (audios s))) (playAudio url txt e s)) = LISTENING
         \<and> effects (step (Audio_ended (length (audios s))) (playAudio url txt e s))
             = effects (playAudio url txt e s)
                 @ [case recognitionRef s of Some k \<Rightarrow> Recognition_start k
                    | None \<Rightarrow> Uncaught_TypeError]"
    if "play_ok e"
    using that
    by (simp add: step_def playAudio_audios playAudio_simps playAudio_effects
          audio_onended_simps length_paused nth_append)
  show ?thesis
    using a b c d starts_step [of ev s k]
    by (simp add: playAudio_effects playAudio_simps)
qed

subsection \<open>A silence timer keeps the session id of its render\<close>

text \<open>
  Two runs from \<open>s_live\<close> and from the page just mounted. In the first the guest ends the
  call, a last result arms a silence timer, the \<open>end_call\<close> request settles and clears
  the session id, and then the timer fires: its \<open>handleUserSpeech\<close> still holds \<open>s1\<close>
  and posts the chat turn. In the second the recognition object of the first render,
  whose handlers hold no session id, arms a timer before the greeting arrives; when the
  timer fires the page has the session id \<open>s1\<close>, and nothing is sent.
\<close>

lemma silence_timer_keeps_session_id:
  "sessionId (run [Click_end, Recognition_result 1 0 [js ''bye''], End_settled (End_resolved 200)]
       s_live) = None
   \<and> drop 6 (effects (run [Click_end, Recognition_result 1 0 [js ''bye''],
         End_settled (End_resolved 200), Silence_timeout 0] s_live))
       = [Recognition_stop 2, Fetch (Chat (js ''bye'') (js ''s1''))]
   \<and> sessionId (run [Click_start, Recognition_result 0 0 [js ''hi''],
         Greet_settled (Resolved greeting) e0] (init True)) = Some (js ''s1'')
   \<and> effects (run [Click_start, Recognition_result 0 0 [js ''hi''],
         Greet_settled (Resolved greeting) e0, Silence_timeout 0] (init True))
       = [Fetch Greet, Audio_play 0, Recognition_stop 1]"
  by (simp add: eval_defs)

section \<open>The claims\<close>

subsection \<open>C1: a failed CRM write at end of call\<close>

text \<open>
  C1 says that when the CRM write of an end-of-call fails, the caller gets a failure
  outcome and never a silent success indication, the session staying ended. The page
  does end the session (the session id is cleared), but what it shows is the success
  text: when the \<open>end_call\<close> request rejects, the handler writes ``Failed to save log''
  to the console and then sets the transcript to ``Call Ended. Log saved.'' and the
  status to IDLE, exactly as after a request that resolved; and the response of a
  request that resolved is never read, so a 500 is indistinguishable from a 200.
\<close>

theorem endCall_failure_shows_log_saved:
  "transcript (end_settled End_rejected s) = Some (js ''Call Ended. Log saved.'')
   \<and> callStatus (end_settled End_rejected s) = IDLE
   \<and> sessionId (end_settled End_rejected s) = None
   \<and> effects (end_settled End_rejected s)
       = effects s @ [Console_error (js ''Failed to save log'')]
   \<and> transcript (end_settled End_rejected s) = transcript (end_settled (End_resolved 200) s)
   \<and> end_settled (End_resolved 500) s = end_settled (End_resolved 200) s"
  by (simp add: end_settled_simps) (simp add: end_settled_def)

theorem endCall_failure_shows_log_saved_witness:
  "transcript (end_settled End_rejected (endCall s_live)) = Some (js ''Call Ended. Log saved.'')
   \<and> callStatus (end_settled End_rejected (endCall s_live)) = IDLE
   \<and> effects (end_settled End_rejected (endCall s_live))
       = [Fetch Greet, Audio_play 0, Recognition_start 1, Audio_pause 0, Recognition_stop 1,
          Fetch (End_call (js ''s1'')), Console_error (js ''Failed to save log'')]"
  using endCall_failure_shows_log_saved [of "endCall s_live"]
  by (simp add: eval_defs)

subsection \<open>C2: an error response to a chat turn\<close>

text \<open>
  C2: when the response to a chat turn carries an error, the handler alerts
  ``Session Expired.'', sets the status to IDLE and does nothing else: in particular it
  issues no further request, so the turn is not retried. A response without an error
  is played: the reply text (the field \<open>text\<close>) becomes the transcript and a log entry,
  and the audio element's source is the response's audio URL.
\<close>

theorem chat_error_is_terminal:
  "(truthy (field d ''error'') \<longrightarrow>
      chat_settled (Resolved d) e s
        = s\<lparr>effects := effects s @ [Alert (js ''Session Expired.'')], callStatus := IDLE\<rparr>)
   \<and> (\<not> truthy (field d ''error'') \<longrightarrow>
        chat_settled (Resolved d) e s = playAudio (field d ''audio_url'') (field d ''text'') e s
      \<and> transcript (chat_settled (Resolved d) e s) = field d ''text''
      \<and> logs (chat_settled (Resolved d) e s)
          = logs s @ [\<lparr>sender = js ''Aria'', log_text = field d ''text''\<rparr>]
      \<and> src (last (audios (chat_settled (Resolved d) e s)))
          = to_str (field d ''audio_url'') @ js ''?t='' @ decimal (now e)
      \<and> callStatus (chat_settled (Resolved d) e s) = SPEAKING)"
  by (simp add: chat_settled_def emit_def playAudio_simps playAudio_audios)

theorem chat_error_is_terminal_witness:
  "truthy (field [(''error'', js ''Session not found'')] ''error'')
   \<and> callStatus (chat_settled (Resolved [(''error'', js ''Session not found'')]) e0 s_asked)
       = IDLE
   \<and> effects (chat_settled (Resolved [(''error'', js ''Session not found'')]) e0 s_asked)
       = [Fetch Greet, Audio_play 0, Recognition_start 1, Recognition_stop 1,
          Fetch (Chat (js ''hello'') (js ''s1'')), Alert (js ''Session Expired.'')]
   \<and> \<not> truthy (field reply ''error'')
   \<and> transcript (chat_settled (Resolved reply) e0 s_asked) = Some (js ''Hi'')
   \<and> src (last (audios (chat_settled (Resolved reply) e0 s_asked))) = js ''/a.mp3?t=7''"
  using chat_error_is_terminal [of "[(''error'', js ''Session not found'')]" e0 s_asked]
        chat_error_is_terminal [of reply e0 s_asked]
  by (simp add: eval_defs)

subsection \<open>C3: ending a call without a session id\<close>




subsection \<open>C4: the end-call path waits for its request\<close>




subsection \<open>C5: which failures show ``Session Expired.''\<close>

text \<open>
  C5: of the failures of a chat turn that reach the caller, the one shown as
  ``Session Expired.'' is the absence of the session and no other. The alert is raised
  exactly when the response says that the session is absent; a turn that fails in any
  other way reaches the page as a request that fails (it rejects, or its body is not
  JSON), and is shown as the generic ``Connection Error.'', with the status back to
  IDLE and no alert.
\<close>

theorem session_expired_iff_error_field:
  "(Alert (js ''Session Expired.'')
        \<in> set (drop (length (effects s)) (effects (chat_settled (Resolved d) e s)))
      \<longleftrightarrow> session_absent d)
   \<and> effects (chat_settled Rejected e s) = effects s
   \<and> transcript (chat_settled Rejected e s) = Some (js ''Connection Error.'')
   \<and> callStatus (chat_settled Rejected e s) = IDLE"
  by (simp add: chat_settled_def session_absent_def emit_simps playAudio_effects
        split: option.split)

theorem session_expired_iff_error_field_witness:
  "session_absent [(''error'', js ''Session not found'')]
   \<and> Alert (js ''Session Expired.'')
       \<in> set (effects (chat_settled (Resolved [(''error'', js ''Session not found'')]) e0
                 s_asked))
   \<and> \<not> session_absent reply
   \<and> Alert (js ''Session Expired.'') \<notin> set (effects (chat_settled (Resolved reply) e0 s_asked))
   \<and> transcript (chat_settled Rejected e0 s_asked) = Some (js ''Connection Error.'')
   \<and> Alert (js ''Session Expired.'') \<notin> set (effects (chat_settled Rejected e0 s_asked))"
  using session_expired_iff_error_field [of s_asked "[(''error'', js ''Session not found'')]" e0]
        session_expired_iff_error_field [of s_asked reply e0]
  by (simp add: eval_defs)

subsection \<open>C6: the greeting\<close>

text \<open>
  C6: the greet request carries no input. Of the record that comes back the page
  stores the session id, and it plays the reply audio by reference: it creates an audio
  element whose source is the returned URL (followed by a cache-busting query), makes
  it the current element and plays it. The reply text the page shows and logs is the
  record's field \<open>text\<close>.
\<close>

theorem greet_stores_session_and_plays:
  "effects (startCall s) = effects s @ [Fetch Greet]
   \<and> sessionId (greet_settled (Resolved d) e s) = field d ''session_id''
   \<and> transcript (greet_settled (Resolved d) e s) = field d ''text''
   \<and> logs (greet_settled (Resolved d) e s)
       = logs s @ [\<lparr>sender = js ''Aria'', log_text = field d ''text''\<rparr>]
   \<and> callStatus (greet_settled (Resolved d) e s) = SPEAKING
   \<and> audioRef (greet_settled (Resolved d) e s) = Some (length (audios s))
   \<and> last (audios (greet_settled (Resolved d) e s))
       = \<lparr>src = to_str (field d ''audio_url'') @ js ''?t='' @ decimal (now e),
          playing = play_ok e\<rparr>
   \<and> Audio_play (length (audios s)) \<in> set (effects (greet_settled (Resolved d) e s))"
  by (simp add: startCall_def greet_settled_def emit_simps playAudio_simps playAudio_audios
        playAudio_effects setSessionId_simps)

theorem greet_stores_session_and_plays_witness:
  "sessionId (greet_settled (Resolved greeting) e0 s_connecting) = Some (js ''s1'')
   \<and> transcript (greet_settled (Resolved greeting) e0 s_connecting) = Some (js ''Welcome'')
   \<and> logs (greet_settled (Resolved greeting) e0 s_connecting)
      = [\<lparr>sender = js ''Aria'', log_text = Some (js ''Welcome'')\<rparr>]
   \<and> audios (greet_settled (Resolved greeting) e0 s_connecting)
      = [\<lparr>src = js ''/greet.mp3?t=7'', playing = True\<rparr>]
   \<and> effects (greet_settled (Resolved greeting) e0 s_connecting)
      = [Fetch Greet, Audio_play 0]"
  using greet_stores_session_and_plays [of s_connecting greeting e0]
  by (simp add: eval_defs)

subsection \<open>C7: the log is append-only\<close>

text \<open>
  C7: no event other than the click that starts a new call (possible only when the page
  is IDLE) removes or reorders a log entry: the log before is a prefix of the log
  after, for one event and for any sequence of events without that click. A chat turn
  appends the guest's utterance when it is handled and Aria's reply when the response
  arrives, in that order.
\<close>

theorem logs_append_only:
  "((ev = Click_start \<longrightarrow> callStatus s \<noteq> IDLE) \<longrightarrow> prefix (logs s) (logs (step ev s)))
   \<and> (Click_start \<notin> set evs \<longrightarrow> prefix (logs s) (logs (run evs s)))
   \<and> (\<not> list_all is_js_whitespace t \<and> truthy sid \<and> \<not> truthy (field d ''error'')
        \<longrightarrow> logs (handleUserSpeech sid t s)
              = logs s @ [\<lparr>sender = js ''Guest'', log_text = Some t\<rparr>]
          \<and> logs (chat_settled (Resolved d) e (handleUserSpeech sid t s))
             = logs s @ [\<lparr>sender = js ''Guest'', log_text = Some t\<rparr>,
                         \<lparr>sender = js ''Aria'', log_text = field d ''text''\<rparr>])"
  using logs_step_prefix [of ev s] logs_run_prefix [of evs s]
  by (simp add: handleUserSpeech_def js_trim_empty truthy_def chat_settled_def playAudio_simps
        emit_simps addLog_simps)

theorem logs_append_only_witness:
  "Click_start \<notin> set [Recognition_result 1 0 [js ''hel'', js ''lo''], Silence_timeout 0,
        Chat_settled (Resolved reply) e0]
   \<and> logs s_live = [\<lparr>sender = js ''Aria'', log_text = Some (js ''Welcome'')\<rparr>]
   \<and> logs (run [Recognition_result 1 0 [js ''hel'', js ''lo''], Silence_timeout 0,
        Chat_settled (Resolved reply) e0] s_live)
       = [\<lparr>sender = js ''Aria'', log_text = Some (js ''Welcome'')\<rparr>,
          \<lparr>sender = js ''Guest'', log_text = Some (js ''hello'')\<rparr>,
          \<lparr>sender = js ''Aria'', log_text = Some (js ''Hi'')\<rparr>]
   \<and> prefix (logs s_live) (logs (run [Recognition_result 1 0 [js ''hel'', js ''lo''],
        Silence_timeout 0, Chat_settled (Resolved reply) e0] s_live))
   \<and> \<not> list_all is_js_whitespace (js ''hello'') \<and> truthy (sessionId s_live)
   \<and> \<not> truthy (field reply ''error'')
   \<and> logs (chat_settled (Resolved reply) e0
        (handleUserSpeech (sessionId s_live) (js ''hello'') s_live))
       = [\<lparr>sender = js ''Aria'', log_text = Some (js ''Welcome'')\<rparr>,
          \<lparr>sender = js ''Guest'', log_text = Some (js ''hello'')\<rparr>,
          \<lparr>sender = js ''Aria'', log_text = Some (js ''Hi'')\<rparr>]"
  using logs_append_only [of "Chat_settled (Resolved reply) e0" s_live
          "[Recognition_result 1 0 [js ''hel'', js ''lo''], Silence_timeout 0,
            Chat_settled (Resolved reply) e0]"
          "js ''hello''" "sessionId s_live" reply e0]
  by (simp add: eval_defs)

subsection \<open>C8: nothing to send\<close>

text \<open>
  C8: when the utterance consists of whitespace only (the empty utterance included), or
  when no session id is present (\<open>null\<close>, or the empty string, which is falsy as well),
  \<open>handleUserSpeech\<close> returns the state it was given: no request, no log entry, the same
  status. The session id is the one this \<open>handleUserSpeech\<close> reads, that of its
  render; when that is the page's current session id, this is the second line.
\<close>

theorem handleUserSpeech_noop:
  "(list_all is_js_whitespace t \<or> sid = None \<or> sid = Some []
      \<longrightarrow> handleUserSpeech sid t s = s)
   \<and> (list_all is_js_whitespace t \<or> sessionId s = None \<or> sessionId s = Some []
      \<longrightarrow> handleUserSpeech (sessionId s) t s = s)"
  by (auto simp: handleUserSpeech_def truthy_def js_trim_empty)

theorem handleUserSpeech_noop_witness:
  "list_all is_js_whitespace (js ''  '')
   \<and> handleUserSpeech (sessionId s_live) (js ''  '') s_live = s_live
   \<and> sessionId s_connecting = None
   \<and> handleUserSpeech (sessionId s_connecting) (js ''hello'') s_connecting = s_connecting"
  using handleUserSpeech_noop [of "js ''  ''" "sessionId s_live" s_live]
        handleUserSpeech_noop [of "js ''hello''" "sessionId s_connecting" s_connecting]
  by (simp add: eval_defs)

subsection \<open>C9: recognition starting while saving\<close>

text \<open>
  C9: the \<open>onstart\<close> handler of a recognition object leaves the status SAVING when it
  is SAVING, and sets it to LISTENING in every other status; while saving, a
  recognition-start event leaves the whole state as it is.
\<close>

theorem onstart_keeps_saving:
  "callStatus (onstart s) = (if callStatus s = SAVING then SAVING else LISTENING)
   \<and> (callStatus s = SAVING \<longrightarrow> onstart s = s \<and> step (Recognition_started k) s = s)
   \<and> (callStatus s \<noteq> SAVING \<and> k < length (recognizers s)
        \<longrightarrow> callStatus (step (Recognition_started k) s) = LISTENING)"
  by (auto simp: onstart_def step_def)

theorem onstart_keeps_saving_witness:
  "callStatus (endCall s_live) = SAVING
   \<and> callStatus (onstart (endCall s_live)) = SAVING
   \<and> step (Recognition_started 1) (endCall s_live) = endCall s_live
   \<and> callStatus s_connecting \<noteq> SAVING \<and> 0 < length (recognizers s_connecting)
   \<and> callStatus (step (Recognition_started 0) s_connecting) = LISTENING"
  using onstart_keeps_saving [of "endCall s_live" 1] onstart_keeps_saving [of s_connecting 0]
  by (simp add: eval_defs)

subsection \<open>C10: one audio at a time, and listening only when it has ended\<close>



end
